theory Spec2Isabelle
  imports Main
begin

section \<open>The local track row of the timeline (LocalTrack.js)\<close>

text \<open>
  The file holds one connected component: \<open>mapStateToProps\<close> derives the props of a row from
  the application state, and \<open>LocalTrackComponent\<close> renders the row and wires its handlers.
  The embedding keeps the two apart, as the source does. Exceptions are values of a sum type,
  and every call that leaves the component (a dispatched action, the parent's callback,
  \<open>console.error\<close>) is an entry of an effect log, in the order of the calls.
\<close>

subsection \<open>Types\<close>

text \<open>
  \<open>ThreadIndex\<close>, \<open>CounterIndex\<close> and \<open>TrackIndex\<close> are numbers used as table keys. The types of
  a process id, of a marker schema and of the style object are declared outside this file and
  are type parameters here: \<open>'pid\<close>, \<open>'schema\<close>, \<open>'style\<close>.
\<close>

type_synonym ThreadIndex = int
type_synonym CounterIndex = int
type_synonym TrackIndex = int

text \<open>
  Modelled from the spec: the \<open>LocalTrack\<close> type of \<open>firefox-profiler/types\<close> is not part of
  the source. It is a union of objects tagged by the string \<open>type\<close>; \<open>thread\<close>, \<open>network\<close>,
  \<open>ipc\<close> and \<open>event-delay\<close> carry \<open>threadIndex\<close>, \<open>memory\<close>, \<open>bandwidth\<close>, \<open>process-cpu\<close>
  and \<open>power\<close> carry \<open>counterIndex\<close>, and \<open>marker\<close> carries \<open>threadIndex\<close>, \<open>markerSchema\<close>
  and \<open>markerName\<close>. The record is the object as the code reads it: the tag and the
  properties a variant may carry. Each branch of the code reads only the properties of its
  own variant, so the others never matter. The tag is a plain string, since at run time the
  \<open>switch\<close> statements compare strings and have a \<open>default\<close> branch.
\<close>

record 'schema LocalTrack =
  type :: string
  threadIndex :: ThreadIndex
  counterIndex :: CounterIndex
  markerSchema :: 'schema
  markerName :: string

definition LocalTrackTypes :: "string set" where
  "LocalTrackTypes =
     {''thread'', ''network'', ''memory'', ''bandwidth'', ''ipc'', ''event-delay'',
      ''process-cpu'', ''power'', ''marker''}"

text \<open>
  Modelled from the spec: the selectors the file imports are defined outside the source. They
  are reads of the application state that return a value: the set of selected thread
  indexes, the selected tab, the set of hidden local tracks of a process, the name of a
  track, the process details of a thread and the description of a counter. The state is the
  record of what each selector returns on it: \<open>getThreadProcessDetails state i\<close> stands for
  \<open>getThreadSelectors(i).getThreadProcessDetails(state)\<close> and \<open>getCounterDescription state i\<close>
  for \<open>getCounterSelectors(i).getDescription(state)\<close>.
\<close>

record 'pid State =
  getSelectedThreadIndexes :: "ThreadIndex set"
  getSelectedTab :: string
  getHiddenLocalTracks :: "'pid \<Rightarrow> TrackIndex set"
  getLocalTrackName :: "'pid \<Rightarrow> TrackIndex \<Rightarrow> string"
  getThreadProcessDetails :: "ThreadIndex \<Rightarrow> string"
  getCounterDescription :: "CounterIndex \<Rightarrow> string"

record ('pid, 'schema, 'style) OwnProps =
  pid :: 'pid
  localTrack :: "'schema LocalTrack"
  trackIndex :: TrackIndex
  style :: "'style option"

record StateProps =
  trackName :: string
  isSelected :: bool
  isHidden :: bool
  titleText :: "string option"

text \<open>What a \<open>throw\<close> carries: an \<open>Error\<close> with its message, or another value.\<close>

datatype error = Error string | ThrownUndefined

subsection \<open>JavaScript values and strict equality\<close>

text \<open>
  The \<open>event-delay\<close> branch compares a number with a boolean by \<open>===\<close>. Strict equality
  never converts: values of different types are unequal.
\<close>

datatype jsval = JSNumber int | JSBoolean bool

fun strictEquals :: "jsval \<Rightarrow> jsval \<Rightarrow> bool" where
  "strictEquals (JSNumber a) (JSNumber b) = (a = b)"
| "strictEquals (JSBoolean a) (JSBoolean b) = (a = b)"
| "strictEquals _ _ = False"

subsection \<open>The selection-state resolver\<close>

text \<open>
  Modelled from the spec: \<open>assertExhaustiveCheck\<close> of \<open>firefox-profiler/utils/flow\<close> is not
  part of the source; it fails loudly, by throwing an \<open>Error\<close> with the given message.
\<close>

definition assertExhaustiveCheck :: "'schema LocalTrack \<Rightarrow> string \<Rightarrow> error + unit" where
  "assertExhaustiveCheck notValid errorMessage = Inl (Error errorMessage)"

text \<open>
  \<open>mapStateToProps\<close>. The \<open>switch\<close> yields the pair \<open>(titleText, isSelected)\<close> as it stands
  after the branch of the track type has run, both starting from \<open>null\<close> and \<open>false\<close>, or
  the exception of the \<open>default\<close> branch, which throws whatever \<open>assertExhaustiveCheck\<close>
  returns, if it returns. The returned object is built after the \<open>switch\<close>.
\<close>

definition mapStateToProps ::
  "'pid State \<Rightarrow> ('pid, 'schema, 'style) OwnProps \<Rightarrow> error + StateProps" where
  "mapStateToProps state ownProps =
     (let pid = pid ownProps;
          localTrack = localTrack ownProps;
          trackIndex = trackIndex ownProps;
          titleText = None;
          isSelected = False;
          selectedThreadIndexes = getSelectedThreadIndexes state
      in
        case
          (if type localTrack = ''thread'' then
            (let threadIndex = threadIndex localTrack;
                 selectedTab = getSelectedTab state;
                 isSelected =
                   (threadIndex \<in> selectedThreadIndexes \<and> selectedTab \<noteq> ''network-chart'');
                 titleText = Some (getThreadProcessDetails state threadIndex)
             in Inr (titleText, isSelected))
          else if type localTrack = ''network'' then
            (let threadIndex = threadIndex localTrack;
                 selectedTab = getSelectedTab state;
                 isSelected =
                   (threadIndex \<in> selectedThreadIndexes \<and> selectedTab = ''network-chart'')
             in Inr (titleText, isSelected))
          else if type localTrack = ''marker'' \<or> type localTrack = ''ipc'' then
            (let threadIndex = threadIndex localTrack;
                 selectedTab = getSelectedTab state;
                 isSelected =
                   (threadIndex \<in> selectedThreadIndexes \<and> selectedTab = ''marker-chart'')
             in Inr (titleText, isSelected))
          else if type localTrack = ''event-delay'' then
            (let threadIndex = threadIndex localTrack;
                 isSelected =
                   strictEquals (JSNumber threadIndex)
                     (JSBoolean (threadIndex \<in> selectedThreadIndexes));
                 titleText =
                   Some (''Event Delay of '' @ getThreadProcessDetails state threadIndex)
             in Inr (titleText, isSelected))
          else if type localTrack = ''memory'' \<or> type localTrack = ''bandwidth'' \<or>
                  type localTrack = ''process-cpu'' \<or> type localTrack = ''power'' then
            (let titleText = Some (getCounterDescription state (counterIndex localTrack))
             in Inr (titleText, isSelected))
          else
            (case assertExhaustiveCheck localTrack ''Unhandled LocalTrack type.'' of
               Inl e \<Rightarrow> Inl e
             | Inr _ \<Rightarrow> Inl ThrownUndefined))
        of
          Inl e \<Rightarrow> Inl e
        | Inr (titleText, isSelected) \<Rightarrow>
            Inr \<lparr> trackName = getLocalTrackName state pid trackIndex,
                  isSelected = isSelected,
                  isHidden = (trackIndex \<in> getHiddenLocalTracks state pid),
                  titleText = titleText \<rparr>)"

subsection \<open>Props, effects and events of the component\<close>

text \<open>
  \<open>explicitConnect\<close> hands the component one props object, made of the props of the parent,
  the props derived by \<open>mapStateToProps\<close>, and the three bound action creators of
  \<open>mapDispatchToProps\<close>. The action creators and the callback \<open>setIsInitialSelectedPane\<close>
  are functions of the environment: calling one appends the call to the effect log.
\<close>

record ('pid, 'schema, 'style) Props =
  own :: "('pid, 'schema, 'style) OwnProps"
  derived :: StateProps

definition connect ::
  "'pid State \<Rightarrow> ('pid, 'schema, 'style) OwnProps \<Rightarrow> error + ('pid, 'schema, 'style) Props" where
  "connect state ownProps =
     (case mapStateToProps state ownProps of
        Inl e \<Rightarrow> Inl e
      | Inr stateProps \<Rightarrow> Inr \<lparr> own = ownProps, derived = stateProps \<rparr>)"

text \<open>A track reference \<open>{ type: 'local', pid, trackIndex }\<close>.\<close>

datatype 'pid TrackReference = LocalTrackReference 'pid TrackIndex

text \<open>
  A synthetic mouse or keyboard event: the modifier keys, and whether \<open>stopPropagation\<close> has
  been called on it.
\<close>

record SyntheticEvent =
  ctrlKey :: bool
  metaKey :: bool
  shiftKey :: bool
  propagationStopped :: bool

definition stopPropagation :: "SyntheticEvent \<Rightarrow> SyntheticEvent" where
  "stopPropagation event = event \<lparr> propagationStopped := True \<rparr>"

record TrackSelectionModifiers =
  selectMulti :: bool
  selectRange :: bool

text \<open>
  Modelled from the spec: \<open>getTrackSelectionModifiers\<close> of \<open>firefox-profiler/utils\<close> is not
  part of the source; ctrl or cmd asks for a multiple selection, shift for a range.
\<close>

definition getTrackSelectionModifiers :: "SyntheticEvent \<Rightarrow> TrackSelectionModifiers" where
  "getTrackSelectionModifiers event =
     \<lparr> selectMulti = (ctrlKey event \<or> metaKey event), selectRange = shiftKey event \<rparr>"

datatype ('pid, 'schema) effect =
    ChangeRightClickedTrack "'pid TrackReference"
  | SelectTrackWithModifiers "'pid TrackReference" TrackSelectionModifiers
  | HideLocalTrack 'pid TrackIndex
  | SetIsInitialSelectedPane bool
  | ConsoleError string "'schema LocalTrack"

subsection \<open>Handlers\<close>

definition getTrackReference :: "('pid, 'schema, 'style) Props \<Rightarrow> 'pid TrackReference" where
  "getTrackReference props =
     (let pid = pid (own props); trackIndex = trackIndex (own props)
      in LocalTrackReference pid trackIndex)"

text \<open>
  The handlers \<open>_onContextMenu\<close>, \<open>_selectCurrentTrack\<close> and \<open>_hideCurrentTrack\<close>, named
  here without the underscore. A handler returns the calls it made and the event as it
  leaves it.
\<close>

definition onContextMenu ::
  "('pid, 'schema, 'style) Props \<Rightarrow> SyntheticEvent \<Rightarrow> ('pid, 'schema) effect list \<times> SyntheticEvent" where
  "onContextMenu props event = ([ChangeRightClickedTrack (getTrackReference props)], event)"

definition selectCurrentTrack ::
  "('pid, 'schema, 'style) Props \<Rightarrow> SyntheticEvent \<Rightarrow> ('pid, 'schema) effect list \<times> SyntheticEvent" where
  "selectCurrentTrack props event =
     ([SelectTrackWithModifiers (getTrackReference props) (getTrackSelectionModifiers event)],
      event)"

definition hideCurrentTrack ::
  "('pid, 'schema, 'style) Props \<Rightarrow> SyntheticEvent \<Rightarrow> ('pid, 'schema) effect list \<times> SyntheticEvent" where
  "hideCurrentTrack props event =
     (let pid = pid (own props); trackIndex = trackIndex (own props)
      in ([HideLocalTrack pid trackIndex], stopPropagation event))"

text \<open>The rendered elements refer to the handlers of the instance by name.\<close>

datatype handler = OnContextMenuHandler | SelectCurrentTrackHandler | HideCurrentTrackHandler

fun callHandler ::
  "('pid, 'schema, 'style) Props \<Rightarrow> handler \<Rightarrow> SyntheticEvent \<Rightarrow>
     ('pid, 'schema) effect list \<times> SyntheticEvent" where
  "callHandler props OnContextMenuHandler event = onContextMenu props event"
| "callHandler props SelectCurrentTrackHandler event = selectCurrentTrack props event"
| "callHandler props HideCurrentTrackHandler event = hideCurrentTrack props event"

subsection \<open>Elements\<close>

text \<open>
  A JSX element is its type (a tag or a component name), its props and its children.
\<close>

datatype ('schema, 'style) propValue =
    StringValue string
  | NumberValue int
  | BoolValue bool
  | NullValue
  | UndefinedValue
  | HandlerValue handler
  | StyleValue 'style
  | SchemaValue 'schema
  | ObjectValue "(string \<times> ('schema, 'style) propValue) list"

datatype ('schema, 'style) element =
    Element string "(string \<times> ('schema, 'style) propValue) list" "('schema, 'style) element list"
  | TextNode string

text \<open>
  \<open>classNames\<close> of the classnames package: the string argument, then every key of the object
  argument whose value is truthy, joined by spaces.
\<close>

definition classNames :: "string \<Rightarrow> (string \<times> bool) list \<Rightarrow> string" where
  "classNames base object =
     base @ concat (map (\<lambda>(key, on). if on then '' '' @ key else []) object)"

subsection \<open>The dispatch renderer\<close>

text \<open>
  \<open>renderTrack\<close> returns the element of the track type, or \<open>null\<close> after a call of
  \<open>console.error\<close> in the \<open>default\<close> branch.
\<close>

definition renderTrack ::
  "('pid, 'schema, 'style) Props \<Rightarrow>
     ('pid, 'schema) effect list \<times> ('schema, 'style) element option" where
  "renderTrack props =
     (let localTrack = localTrack (own props); trackName = trackName (derived props)
      in
        if type localTrack = ''thread'' then
          ([], Some (Element ''TimelineTrackThread''
                 [(''threadsKey'', NumberValue (threadIndex localTrack)),
                  (''trackType'', StringValue ''expanded''),
                  (''trackName'', StringValue trackName)] []))
        else if type localTrack = ''network'' then
          ([], Some (Element ''TrackNetwork''
                 [(''threadIndex'', NumberValue (threadIndex localTrack))] []))
        else if type localTrack = ''memory'' then
          ([], Some (Element ''TrackMemory''
                 [(''counterIndex'', NumberValue (counterIndex localTrack))] []))
        else if type localTrack = ''bandwidth'' then
          ([], Some (Element ''TrackBandwidth''
                 [(''counterIndex'', NumberValue (counterIndex localTrack))] []))
        else if type localTrack = ''ipc'' then
          ([], Some (Element ''TrackIPC''
                 [(''threadIndex'', NumberValue (threadIndex localTrack))] []))
        else if type localTrack = ''event-delay'' then
          ([], Some (Element ''TrackEventDelay''
                 [(''threadIndex'', NumberValue (threadIndex localTrack))] []))
        else if type localTrack = ''process-cpu'' then
          ([], Some (Element ''TrackProcessCPU''
                 [(''counterIndex'', NumberValue (counterIndex localTrack))] []))
        else if type localTrack = ''power'' then
          ([], Some (Element ''TrackPower''
                 [(''counterIndex'', NumberValue (counterIndex localTrack))] []))
        else if type localTrack = ''marker'' then
          ([], Some (Element ''TrackCustomMarker''
                 [(''threadIndex'', NumberValue (threadIndex localTrack)),
                  (''markerSchema'', SchemaValue (markerSchema localTrack)),
                  (''markerName'', StringValue (markerName localTrack))] []))
        else
          ([ConsoleError ''Unhandled localTrack type'' localTrack], None))"

definition componentDidMount ::
  "('pid, 'schema, 'style) Props \<Rightarrow> ('pid, 'schema) effect list" where
  "componentDidMount props =
     (let isSelected = isSelected (derived props)
      in if isSelected then [SetIsInitialSelectedPane True] else [])"

text \<open>
  \<open>render\<close>. A \<open>null\<close> child renders nothing, so the last \<open>div\<close> has the element of
  \<open>renderTrack\<close> as its only child, or none.
\<close>

definition render ::
  "('pid, 'schema, 'style) Props \<Rightarrow> ('pid, 'schema) effect list \<times> ('schema, 'style) element" where
  "render props =
     (let isSelected = isSelected (derived props);
          isHidden = isHidden (derived props);
          titleText = titleText (derived props);
          trackName = trackName (derived props);
          style = style (own props)
      in
        if isHidden then
          ([], Element ''li'' [(''className'', StringValue ''timelineTrackHidden'')] [])
        else
          (let (log, track) = renderTrack props
           in (log,
            Element ''li''
              [(''className'', StringValue ''timelineTrack timelineTrackLocal''),
               (''style'', (case style of None \<Rightarrow> UndefinedValue | Some s \<Rightarrow> StyleValue s))]
              [Element ''div''
                 [(''className'',
                     StringValue (classNames ''timelineTrackRow timelineTrackLocalRow''
                       [(''selected'', isSelected)])),
                  (''onClick'', HandlerValue SelectCurrentTrackHandler)]
                 [Element ''ContextMenuTrigger''
                    [(''id'', StringValue ''TimelineTrackContextMenu''),
                     (''renderTag'', StringValue ''div''),
                     (''attributes'', ObjectValue
                        [(''title'',
                            (case titleText of None \<Rightarrow> NullValue | Some t \<Rightarrow> StringValue t)),
                         (''className'', StringValue
                            ''timelineTrackLabel timelineTrackLocalLabel timelineTrackLocalGrippy''),
                         (''onContextMenu'', HandlerValue OnContextMenuHandler)])]
                    [Element ''button''
                       [(''type'', StringValue ''button''),
                        (''className'', StringValue ''timelineTrackNameButton'')]
                       [TextNode trackName],
                     Element ''Localized''
                       [(''id'', StringValue ''TrackNameButton--hide-track''),
                        (''attrs'', ObjectValue [(''title'', BoolValue True)])]
                       [Element ''button''
                          [(''type'', StringValue ''button''),
                           (''className'', StringValue ''timelineTrackCloseButton''),
                           (''title'', StringValue ''Hide track''),
                           (''onClick'', HandlerValue HideCurrentTrackHandler)]
                          []]],
                  Element ''div''
                    [(''className'', StringValue ''timelineTrackTrack'')]
                    (case track of None \<Rightarrow> [] | Some e \<Rightarrow> [e])]])))"

subsection \<open>Handlers attached to a tree, and the dispatch of an event\<close>

text \<open>Every handler that occurs in the props of an element or of its descendants.\<close>

fun handlersOfValue :: "('schema, 'style) propValue \<Rightarrow> handler list"
  and handlersOfProps :: "(string \<times> ('schema, 'style) propValue) list \<Rightarrow> handler list" where
  "handlersOfValue (HandlerValue h) = [h]"
| "handlersOfValue (ObjectValue ps) = handlersOfProps ps"
| "handlersOfValue (StringValue _) = []"
| "handlersOfValue (NumberValue _) = []"
| "handlersOfValue (BoolValue _) = []"
| "handlersOfValue NullValue = []"
| "handlersOfValue UndefinedValue = []"
| "handlersOfValue (StyleValue _) = []"
| "handlersOfValue (SchemaValue _) = []"
| "handlersOfProps [] = []"
| "handlersOfProps ((key, v) # ps) = handlersOfValue v @ handlersOfProps ps"

fun handlersOf :: "('schema, 'style) element \<Rightarrow> handler list"
  and handlersOfChildren :: "('schema, 'style) element list \<Rightarrow> handler list" where
  "handlersOf (Element t ps cs) = handlersOfProps ps @ handlersOfChildren cs"
| "handlersOf (TextNode _) = []"
| "handlersOfChildren [] = []"
| "handlersOfChildren (c # cs) = handlersOf c @ handlersOfChildren cs"

text \<open>
  The handler an element has for an event: the prop of that name, which for
  \<open>ContextMenuTrigger\<close> is inside the \<open>attributes\<close> it passes on to the tag it renders.
\<close>

definition listenerOf ::
  "string \<Rightarrow> (string \<times> ('schema, 'style) propValue) list \<Rightarrow> handler option" where
  "listenerOf eventName ps =
     (case map_of ps eventName of
        Some (HandlerValue h) \<Rightarrow> Some h
      | _ \<Rightarrow>
         (case map_of ps ''attributes'' of
            Some (ObjectValue attributes) \<Rightarrow>
              (case map_of attributes eventName of Some (HandlerValue h) \<Rightarrow> Some h | _ \<Rightarrow> None)
          | _ \<Rightarrow> None))"

text \<open>
  The handlers an event meets on its way up: from the target, the first element with the
  given class name, through its ancestors to the root. \<open>None\<close> when the tree has no such
  element.
\<close>

fun listenersOnPath ::
    "string \<Rightarrow> string \<Rightarrow> ('schema, 'style) element \<Rightarrow> handler list option"
  and listenersOnPathIn ::
    "string \<Rightarrow> string \<Rightarrow> ('schema, 'style) element list \<Rightarrow> handler list option" where
  "listenersOnPath eventName target (Element t ps cs) =
     (let here = (case listenerOf eventName ps of None \<Rightarrow> [] | Some h \<Rightarrow> [h])
      in if map_of ps ''className'' = Some (StringValue target) then Some here
         else (case listenersOnPathIn eventName target cs of
                 None \<Rightarrow> None
               | Some below \<Rightarrow> Some (below @ here)))"
| "listenersOnPath eventName target (TextNode _) = None"
| "listenersOnPathIn eventName target [] = None"
| "listenersOnPathIn eventName target (c # cs) =
     (case listenersOnPath eventName target c of
        Some hs \<Rightarrow> Some hs
      | None \<Rightarrow> listenersOnPathIn eventName target cs)"

text \<open>
  Bubbling: the handlers run in order, the target's first, until one has stopped the
  propagation of the event.
\<close>

fun bubble ::
  "('pid, 'schema, 'style) Props \<Rightarrow> handler list \<Rightarrow> SyntheticEvent \<Rightarrow>
     ('pid, 'schema) effect list \<times> SyntheticEvent" where
  "bubble props [] event = ([], event)"
| "bubble props (h # hs) event =
     (if propagationStopped event then ([], event)
      else (let (log, event') = callHandler props h event;
                (log', event'') = bubble props hs event'
            in (log @ log', event'')))"

text \<open>
  An event of the given name on the element of the given class name, in the tree rendered
  from the current props.
\<close>

definition dispatchEvent ::
  "('pid, 'schema, 'style) Props \<Rightarrow> string \<Rightarrow> string \<Rightarrow> SyntheticEvent \<Rightarrow>
     (('pid, 'schema) effect list \<times> SyntheticEvent) option" where
  "dispatchEvent props eventName target event =
     (case listenersOnPath eventName target (snd (render props)) of
        None \<Rightarrow> None
      | Some hs \<Rightarrow> Some (bubble props hs event))"

subsection \<open>The life of a mounted row\<close>

text \<open>
  React renders a new instance and then calls \<open>componentDidMount\<close>, once. Afterwards the
  instance is rendered again whenever its props change, and its handlers run on the events
  of the user; the class defines no other lifecycle method.
\<close>

datatype ('pid, 'schema, 'style) lifecycleEvent =
    NewProps "('pid, 'schema, 'style) Props"
  | UserEvent string string SyntheticEvent

definition mount :: "('pid, 'schema, 'style) Props \<Rightarrow> ('pid, 'schema) effect list" where
  "mount props = fst (render props) @ componentDidMount props"

fun afterMount ::
  "('pid, 'schema, 'style) Props \<Rightarrow> ('pid, 'schema, 'style) lifecycleEvent list \<Rightarrow>
     ('pid, 'schema) effect list" where
  "afterMount props [] = []"
| "afterMount props (NewProps props' # events) = fst (render props') @ afterMount props' events"
| "afterMount props (UserEvent eventName target event # events) =
     (case dispatchEvent props eventName target event of
        None \<Rightarrow> []
      | Some (log, _) \<Rightarrow> log) @ afterMount props events"

definition lifetime ::
  "('pid, 'schema, 'style) Props \<Rightarrow> ('pid, 'schema, 'style) lifecycleEvent list \<Rightarrow>
     ('pid, 'schema) effect list" where
  "lifetime props events = mount props @ afterMount props events"

text \<open>The effects a property below counts.\<close>

definition isPaneNotification :: "('pid, 'schema) effect \<Rightarrow> bool" where
  "isPaneNotification e = (case e of SetIsInitialSelectedPane _ \<Rightarrow> True | _ \<Rightarrow> False)"

definition isSelectCommand :: "('pid, 'schema) effect \<Rightarrow> bool" where
  "isSelectCommand e = (case e of SelectTrackWithModifiers _ _ \<Rightarrow> True | _ \<Rightarrow> False)"

subsection \<open>Example rows\<close>

text \<open>
  A descriptor of the given tag whose index property is \<open>i\<close>, a row of process 7, and a state
  with thread 5 selected, the given tab active and track 4 of process 7 hidden.
\<close>

definition exampleTrack :: "string \<Rightarrow> int \<Rightarrow> unit LocalTrack" where
  "exampleTrack tag i =
     \<lparr> type = tag, threadIndex = i, counterIndex = i, markerSchema = (), markerName = ''GC'' \<rparr>"

definition exampleRow :: "unit LocalTrack \<Rightarrow> TrackIndex \<Rightarrow> (nat, unit, unit) OwnProps" where
  "exampleRow track i = \<lparr> pid = 7, localTrack = track, trackIndex = i, style = None \<rparr>"

definition exampleState :: "string \<Rightarrow> nat State" where
  "exampleState tab =
     \<lparr> getSelectedThreadIndexes = {5},
       getSelectedTab = tab,
       getHiddenLocalTracks = (\<lambda>pid. if pid = 7 then {4} else {}),
       getLocalTrackName = (\<lambda>pid i. ''Track''),
       getThreadProcessDetails = (\<lambda>i. ''Web Content''),
       getCounterDescription = (\<lambda>i. ''Memory'') \<rparr>"

definition exampleProps :: "bool \<Rightarrow> bool \<Rightarrow> (nat, unit, unit) Props" where
  "exampleProps selected hidden =
     \<lparr> own = exampleRow (exampleTrack ''thread'' 5) 2,
       derived = \<lparr> trackName = ''Track'', isSelected = selected, isHidden = hidden,
                   titleText = Some ''Web Content'' \<rparr> \<rparr>"

definition exampleEvent :: SyntheticEvent where
  "exampleEvent =
     \<lparr> ctrlKey = False, metaKey = False, shiftKey = False, propagationStopped = False \<rparr>"

section \<open>Properties of the resolver\<close>

text \<open>
  C1. For a \<open>thread\<close> descriptor the resolver returns, and \<open>isSelected\<close> holds exactly when the
  thread index of the descriptor is in the set of selected threads and the selected tab is
  not \<open>network-chart\<close>. In particular a selected thread is not shown selected while the
  network tab is active.
\<close>

theorem thread_selected_iff:
  assumes "type (localTrack ownProps) = ''thread''"
  shows "\<exists>props. mapStateToProps state ownProps = Inr props \<and>
           (isSelected props \<longleftrightarrow>
              threadIndex (localTrack ownProps) \<in> getSelectedThreadIndexes state \<and>
              getSelectedTab state \<noteq> ''network-chart'') \<and>
           (threadIndex (localTrack ownProps) \<in> getSelectedThreadIndexes state \<and>
              getSelectedTab state = ''network-chart'' \<longrightarrow> \<not> isSelected props)"
  using assms by (simp add: Let_def mapStateToProps_def)

theorem thread_selected_iff_witness:
  "type (localTrack (exampleRow (exampleTrack ''thread'' 5) 2)) = ''thread'' \<and>
   (5::int) \<in> getSelectedThreadIndexes (exampleState ''network-chart'') \<and>
   (\<exists>props. mapStateToProps (exampleState ''network-chart'')
               (exampleRow (exampleTrack ''thread'' 5) 2) = Inr props \<and>
            \<not> isSelected props) \<and>
   (\<exists>props. mapStateToProps (exampleState ''calltree'')
               (exampleRow (exampleTrack ''thread'' 5) 2) = Inr props \<and>
            isSelected props)"
  using thread_selected_iff [of "exampleRow (exampleTrack ''thread'' 5) 2"
          "exampleState ''network-chart''"]
        thread_selected_iff [of "exampleRow (exampleTrack ''thread'' 5) 2"
          "exampleState ''calltree''"]
  by (simp add: exampleRow_def exampleTrack_def exampleState_def)

text \<open>
  C2. For a \<open>network\<close> descriptor the resolver returns, \<open>isSelected\<close> holds exactly when the
  thread index of the descriptor is in the set of selected threads and the selected tab is
  \<open>network-chart\<close>, and \<open>titleText\<close> is \<open>null\<close>.
\<close>

theorem network_selected_iff:
  assumes "type (localTrack ownProps) = ''network''"
  shows "\<exists>props. mapStateToProps state ownProps = Inr props \<and>
           (isSelected props \<longleftrightarrow>
              threadIndex (localTrack ownProps) \<in> getSelectedThreadIndexes state \<and>
              getSelectedTab state = ''network-chart'') \<and>
           titleText props = None"
  using assms by (simp add: Let_def mapStateToProps_def)

theorem network_selected_iff_witness:
  "type (localTrack (exampleRow (exampleTrack ''network'' 5) 2)) = ''network'' \<and>
   (\<exists>props. mapStateToProps (exampleState ''network-chart'')
               (exampleRow (exampleTrack ''network'' 5) 2) = Inr props \<and>
            isSelected props \<and> titleText props = None) \<and>
   (\<exists>props. mapStateToProps (exampleState ''calltree'')
               (exampleRow (exampleTrack ''network'' 5) 2) = Inr props \<and>
            \<not> isSelected props \<and> titleText props = None)"
  using network_selected_iff [of "exampleRow (exampleTrack ''network'' 5) 2"
          "exampleState ''network-chart''"]
        network_selected_iff [of "exampleRow (exampleTrack ''network'' 5) 2"
          "exampleState ''calltree''"]
  by (simp add: exampleRow_def exampleTrack_def exampleState_def)

text \<open>
  C3. For a \<open>marker\<close> or an \<open>ipc\<close> descriptor the resolver returns, \<open>isSelected\<close> holds exactly
  when the selected tab is \<open>marker-chart\<close> and the thread index of the descriptor is in the
  set of selected threads, and \<open>titleText\<close> is \<open>null\<close>.
\<close>

theorem marker_ipc_selected_iff:
  assumes "type (localTrack ownProps) = ''marker'' \<or> type (localTrack ownProps) = ''ipc''"
  shows "\<exists>props. mapStateToProps state ownProps = Inr props \<and>
           (isSelected props \<longleftrightarrow>
              getSelectedTab state = ''marker-chart'' \<and>
              threadIndex (localTrack ownProps) \<in> getSelectedThreadIndexes state) \<and>
           titleText props = None"
  using assms by (auto simp add: Let_def mapStateToProps_def)

theorem marker_ipc_selected_iff_witness:
  "type (localTrack (exampleRow (exampleTrack ''marker'' 5) 2)) = ''marker'' \<and>
   type (localTrack (exampleRow (exampleTrack ''ipc'' 6) 2)) = ''ipc'' \<and>
   (\<exists>props. mapStateToProps (exampleState ''marker-chart'')
               (exampleRow (exampleTrack ''marker'' 5) 2) = Inr props \<and>
            isSelected props \<and> titleText props = None) \<and>
   (\<exists>props. mapStateToProps (exampleState ''marker-chart'')
               (exampleRow (exampleTrack ''ipc'' 6) 2) = Inr props \<and>
            \<not> isSelected props \<and> titleText props = None)"
  using marker_ipc_selected_iff [of "exampleRow (exampleTrack ''marker'' 5) 2"
          "exampleState ''marker-chart''"]
        marker_ipc_selected_iff [of "exampleRow (exampleTrack ''ipc'' 6) 2"
          "exampleState ''marker-chart''"]
  by (simp add: exampleRow_def exampleTrack_def exampleState_def)

text \<open>
  C4. For an \<open>event-delay\<close> descriptor the resolver returns with \<open>isSelected\<close> false, whatever
  the set of selected threads and the selected tab: the branch compares the thread index, a
  number, with the boolean answer of \<open>has\<close> by strict equality.
\<close>

theorem event_delay_never_selected:
  assumes "type (localTrack ownProps) = ''event-delay''"
  shows "\<exists>props. mapStateToProps state ownProps = Inr props \<and> \<not> isSelected props"
  using assms by (simp add: Let_def mapStateToProps_def)

theorem event_delay_never_selected_witness:
  "type (localTrack (exampleRow (exampleTrack ''event-delay'' 5) 2)) = ''event-delay'' \<and>
   (5::int) \<in> getSelectedThreadIndexes (exampleState ''calltree'') \<and>
   (\<exists>props. mapStateToProps (exampleState ''calltree'')
               (exampleRow (exampleTrack ''event-delay'' 5) 2) = Inr props \<and>
            \<not> isSelected props)"
  using event_delay_never_selected [of "exampleRow (exampleTrack ''event-delay'' 5) 2"
          "exampleState ''calltree''"]
  by (simp add: exampleRow_def exampleTrack_def exampleState_def)

text \<open>
  C5. For a \<open>memory\<close>, \<open>bandwidth\<close>, \<open>process-cpu\<close> or \<open>power\<close> descriptor the resolver returns
  with \<open>isSelected\<close> false and with the description of the counter of the descriptor's
  counter index as \<open>titleText\<close>.
\<close>

theorem counter_track_title:
  assumes "type (localTrack ownProps) \<in> {''memory'', ''bandwidth'', ''process-cpu'', ''power''}"
  shows "\<exists>props. mapStateToProps state ownProps = Inr props \<and>
           \<not> isSelected props \<and>
           titleText props =
             Some (getCounterDescription state (counterIndex (localTrack ownProps)))"
  using assms by (auto simp add: Let_def mapStateToProps_def)

theorem counter_track_title_witness:
  "type (localTrack (exampleRow (exampleTrack ''memory'' 3) 2))
     \<in> {''memory'', ''bandwidth'', ''process-cpu'', ''power''} \<and>
   (\<exists>props. mapStateToProps (exampleState ''calltree'')
               (exampleRow (exampleTrack ''memory'' 3) 2) = Inr props \<and>
            \<not> isSelected props \<and>
            titleText props = Some (getCounterDescription (exampleState ''calltree'') 3))"
  using counter_track_title [of "exampleRow (exampleTrack ''memory'' 3) 2"
          "exampleState ''calltree''"]
  by (simp add: exampleRow_def exampleTrack_def)

text \<open>
  C8. For an \<open>event-delay\<close> descriptor the resolver returns with \<open>titleText\<close> the string
  \<open>Event Delay of\<close>, a space, and then the process details of the thread of the descriptor's
  thread index.
\<close>

theorem event_delay_title:
  assumes "type (localTrack ownProps) = ''event-delay''"
  shows "\<exists>props. mapStateToProps state ownProps = Inr props \<and>
           titleText props =
             Some (''Event Delay of '' @
                   getThreadProcessDetails state (threadIndex (localTrack ownProps)))"
  using assms by (simp add: Let_def mapStateToProps_def)

theorem event_delay_title_witness:
  "type (localTrack (exampleRow (exampleTrack ''event-delay'' 5) 2)) = ''event-delay'' \<and>
   (\<exists>props. mapStateToProps (exampleState ''calltree'')
               (exampleRow (exampleTrack ''event-delay'' 5) 2) = Inr props \<and>
            titleText props = Some ''Event Delay of Web Content'')"
  using event_delay_title [of "exampleRow (exampleTrack ''event-delay'' 5) 2"
          "exampleState ''calltree''"]
  by (simp add: exampleRow_def exampleTrack_def exampleState_def)

section \<open>Unhandled track types\<close>

lemma mapStateToProps_unhandled:
  assumes "type (localTrack ownProps) \<notin> LocalTrackTypes"
  shows "mapStateToProps state ownProps = Inl (Error ''Unhandled LocalTrack type.'')"
  using assms
  by (simp add: Let_def mapStateToProps_def LocalTrackTypes_def assertExhaustiveCheck_def)

lemma renderTrack_unhandled:
  assumes "type (localTrack (own props)) \<notin> LocalTrackTypes"
  shows "renderTrack props =
           ([ConsoleError ''Unhandled localTrack type'' (localTrack (own props))], None)"
  using assms by (simp add: Let_def renderTrack_def LocalTrackTypes_def)

lemma mapStateToProps_handled:
  assumes "type (localTrack ownProps) \<in> LocalTrackTypes"
  shows "\<exists>props. mapStateToProps state ownProps = Inr props"
  using assms by (auto simp add: Let_def mapStateToProps_def LocalTrackTypes_def)

text \<open>
  C7. On a descriptor whose type is none of the nine handled ones, the resolver throws the
  error of the exhaustiveness check, while \<open>renderTrack\<close>, whatever the derived props it is
  given with that descriptor, calls \<open>console.error\<close> once and returns \<open>null\<close>. On a
  descriptor of a handled type the resolver returns.
\<close>

theorem unhandled_type_policies:
  "(type (localTrack ownProps) \<notin> LocalTrackTypes \<longrightarrow>
      mapStateToProps state ownProps = Inl (Error ''Unhandled LocalTrack type.'') \<and>
      renderTrack \<lparr> own = ownProps, derived = stateProps \<rparr> =
        ([ConsoleError ''Unhandled localTrack type'' (localTrack ownProps)], None)) \<and>
   (type (localTrack ownProps) \<in> LocalTrackTypes \<longrightarrow>
      (\<exists>props. mapStateToProps state ownProps = Inr props))"
  using mapStateToProps_unhandled [of ownProps state]
        renderTrack_unhandled [of "\<lparr> own = ownProps, derived = stateProps \<rparr>"]
        mapStateToProps_handled [of ownProps state]
  by simp

theorem unhandled_type_policies_witness:
  "type (localTrack (exampleRow (exampleTrack ''gpu'' 5) 2)) \<notin> LocalTrackTypes \<and>
   mapStateToProps (exampleState ''calltree'') (exampleRow (exampleTrack ''gpu'' 5) 2) =
     Inl (Error ''Unhandled LocalTrack type.'') \<and>
   renderTrack \<lparr> own = exampleRow (exampleTrack ''gpu'' 5) 2,
                 derived = derived (exampleProps False False) \<rparr> =
     ([ConsoleError ''Unhandled localTrack type'' (exampleTrack ''gpu'' 5)], None) \<and>
   type (localTrack (exampleRow (exampleTrack ''power'' 1) 2)) \<in> LocalTrackTypes \<and>
   (\<exists>props. mapStateToProps (exampleState ''calltree'')
              (exampleRow (exampleTrack ''power'' 1) 2) = Inr props)"
  using unhandled_type_policies [of "exampleRow (exampleTrack ''gpu'' 5) 2"
          "exampleState ''calltree''" "derived (exampleProps False False)"]
        unhandled_type_policies [of "exampleRow (exampleTrack ''power'' 1) 2"
          "exampleState ''calltree''" "derived (exampleProps False False)"]
  by (simp add: exampleRow_def exampleTrack_def LocalTrackTypes_def)

section \<open>Hidden rows\<close>

lemma mapStateToProps_isHidden:
  assumes "type (localTrack ownProps) \<in> LocalTrackTypes"
  shows "\<exists>props. mapStateToProps state ownProps = Inr props \<and>
           (isHidden props \<longleftrightarrow>
              trackIndex ownProps \<in> getHiddenLocalTracks state (pid ownProps))"
  using assms by (auto simp add: Let_def mapStateToProps_def LocalTrackTypes_def)

lemma render_hidden:
  assumes "isHidden (derived props)"
  shows "render props =
           ([], Element ''li'' [(''className'', StringValue ''timelineTrackHidden'')] [])"
  using assms by (simp add: Let_def render_def)

lemma connected_hidden_row:
  assumes "type (localTrack ownProps) \<in> LocalTrackTypes"
    and "trackIndex ownProps \<in> getHiddenLocalTracks state (pid ownProps)"
  shows "\<exists>props. connect state ownProps = Inr props \<and> own props = ownProps \<and>
           render props =
             ([], Element ''li'' [(''className'', StringValue ''timelineTrackHidden'')] [])"
  using assms mapStateToProps_isHidden [of ownProps state]
  by (auto simp add: connect_def render_hidden)

text \<open>A visible row carries its three handlers; the element of the track carries none.\<close>

lemma renderTrack_no_handlers:
  "handlersOfChildren (case snd (renderTrack props) of None \<Rightarrow> [] | Some e \<Rightarrow> [e]) = []"
  by (simp add: renderTrack_def Let_def)

lemma visible_row_handlers:
  assumes "\<not> isHidden (derived props)"
  shows "handlersOf (snd (render props)) =
           [SelectCurrentTrackHandler, OnContextMenuHandler, HideCurrentTrackHandler]"
proof (cases "renderTrack props")
  case (Pair log track)
  then show ?thesis
    using assms renderTrack_no_handlers [of props]
    by (simp add: render_def Let_def split: option.splits)
qed

text \<open>
  C6. For a descriptor of any handled type the resolver returns, and \<open>isHidden\<close> holds exactly
  when the track index is in the set of hidden local tracks of the process. Whenever
  \<open>isHidden\<close> holds, whatever the descriptor, \<open>render\<close> returns the bare
  \<open>li\<close> of class \<open>timelineTrackHidden\<close>, logs nothing, and the tree carries no handler.
\<close>

theorem hidden_row_is_placeholder:
  "(type (localTrack ownProps) \<in> LocalTrackTypes \<longrightarrow>
      (\<exists>stateProps. mapStateToProps state ownProps = Inr stateProps \<and>
         (isHidden stateProps \<longleftrightarrow>
            trackIndex ownProps \<in> getHiddenLocalTracks state (pid ownProps)))) \<and>
   (isHidden (derived props) \<longrightarrow>
      render props =
        ([], Element ''li'' [(''className'', StringValue ''timelineTrackHidden'')] []) \<and>
      handlersOf (snd (render props)) = [])"
  using mapStateToProps_isHidden [of ownProps state] render_hidden [of props]
  by simp

theorem hidden_row_is_placeholder_witness:
  "type (localTrack (exampleRow (exampleTrack ''memory'' 3) 4)) \<in> LocalTrackTypes \<and>
   (\<exists>stateProps. mapStateToProps (exampleState ''calltree'')
                    (exampleRow (exampleTrack ''memory'' 3) 4) = Inr stateProps \<and>
      isHidden stateProps) \<and>
   isHidden (derived (exampleProps True True)) \<and>
   render (exampleProps True True) =
     ([], Element ''li'' [(''className'', StringValue ''timelineTrackHidden'')] []) \<and>
   handlersOf (snd (render (exampleProps True True))) = []"
  using hidden_row_is_placeholder [of "exampleRow (exampleTrack ''memory'' 3) 4"
          "exampleState ''calltree''" "exampleProps True True"]
  by (simp add: exampleRow_def exampleTrack_def exampleState_def exampleProps_def
        LocalTrackTypes_def)

section \<open>Clicks on a visible row\<close>

lemma close_button_listeners:
  assumes "\<not> isHidden (derived props)"
  shows "listenersOnPath ''onClick'' ''timelineTrackCloseButton'' (snd (render props)) =
           Some [HideCurrentTrackHandler, SelectCurrentTrackHandler]"
  using assms
  by (simp add: Let_def render_def listenerOf_def classNames_def split: prod.splits)

lemma name_button_listeners:
  assumes "\<not> isHidden (derived props)"
  shows "listenersOnPath ''onClick'' ''timelineTrackNameButton'' (snd (render props)) =
           Some [SelectCurrentTrackHandler]"
  using assms
  by (simp add: Let_def render_def listenerOf_def classNames_def split: prod.splits)

text \<open>A click on the name button reaches the row and selects the track.\<close>

lemma name_button_click_selects:
  assumes "\<not> isHidden (derived props)" and "\<not> propagationStopped event"
  shows "dispatchEvent props ''onClick'' ''timelineTrackNameButton'' event =
           Some ([SelectTrackWithModifiers
                    (LocalTrackReference (pid (own props)) (trackIndex (own props)))
                    (getTrackSelectionModifiers event)], event)"
  using assms
  by (simp add: dispatchEvent_def name_button_listeners selectCurrentTrack_def
        getTrackReference_def Let_def)

text \<open>
  C9. On a visible row, a click on the close button meets the handler of the button and
  then that of the row. The dispatch calls \<open>hideLocalTrack\<close> with the process id and the
  track index of the row and nothing else, and leaves the event with its propagation
  stopped: no \<open>selectTrackWithModifiers\<close> is among the calls.
\<close>

theorem close_button_hides_without_selecting:
  assumes "\<not> isHidden (derived props)" and "\<not> propagationStopped event"
  shows "listenersOnPath ''onClick'' ''timelineTrackCloseButton'' (snd (render props)) =
           Some [HideCurrentTrackHandler, SelectCurrentTrackHandler] \<and>
         (\<exists>log event'.
            dispatchEvent props ''onClick'' ''timelineTrackCloseButton'' event =
              Some (log, event') \<and>
            log = [HideLocalTrack (pid (own props)) (trackIndex (own props))] \<and>
            propagationStopped event' \<and>
            filter isSelectCommand log = [])"
  using assms
  by (simp add: dispatchEvent_def close_button_listeners hideCurrentTrack_def
        stopPropagation_def isSelectCommand_def Let_def)

theorem close_button_hides_without_selecting_witness:
  "\<not> isHidden (derived (exampleProps True False)) \<and>
   \<not> propagationStopped exampleEvent \<and>
   (\<exists>event'.
      dispatchEvent (exampleProps True False) ''onClick'' ''timelineTrackCloseButton''
        exampleEvent = Some ([HideLocalTrack 7 2], event') \<and>
      propagationStopped event')"
  using close_button_hides_without_selecting [of "exampleProps True False" exampleEvent]
  by (auto simp add: exampleProps_def exampleEvent_def exampleRow_def)

section \<open>The notification of the initially selected pane\<close>

lemma callHandler_no_notification:
  "filter isPaneNotification (fst (callHandler props h event)) = []"
  by (cases h)
     (simp_all add: onContextMenu_def selectCurrentTrack_def hideCurrentTrack_def
        isPaneNotification_def Let_def)

lemma bubble_no_notification:
  "filter isPaneNotification (fst (bubble props hs event)) = []"
proof (induction hs arbitrary: event)
  case Nil
  then show ?case by simp
next
  case (Cons h hs)
  show ?case
    using callHandler_no_notification [of props h event] Cons.IH
    by (simp add: Let_def split: prod.splits) (metis fst_conv)
qed

lemma renderTrack_no_notification:
  "filter isPaneNotification (fst (renderTrack props)) = []"
  by (simp add: renderTrack_def Let_def isPaneNotification_def)

lemma render_no_notification:
  "filter isPaneNotification (fst (render props)) = []"
proof (cases "renderTrack props")
  case (Pair log track)
  then show ?thesis
    using renderTrack_no_notification [of props] by (simp add: render_def Let_def)
qed

lemma dispatchEvent_no_notification:
  assumes "dispatchEvent props eventName target event = Some (log, event')"
  shows "filter isPaneNotification log = []"
  using assms bubble_no_notification [of props _ event]
  by (auto simp: dispatchEvent_def split: option.splits) (metis fst_conv)

lemma afterMount_no_notification:
  "filter isPaneNotification (afterMount props events) = []"
proof (induction props events rule: afterMount.induct)
  case (1 props)
  then show ?case by simp
next
  case (2 props props' events)
  then show ?case by (simp add: render_no_notification)
next
  case (3 props eventName target event events)
  then show ?case
    by (auto split: option.splits dest: dispatchEvent_no_notification)
qed

text \<open>
  C10. Over the whole life of a mounted row, whatever props arrive later and whatever the
  user does, the calls of \<open>setIsInitialSelectedPane\<close> are: exactly one, with \<open>true\<close>, when
  the row is selected at the time it mounts, and none when it is not.
\<close>

theorem initial_pane_notified_once:
  "filter isPaneNotification (lifetime props events) =
     (if isSelected (derived props) then [SetIsInitialSelectedPane True] else [])"
  by (simp add: lifetime_def mount_def afterMount_no_notification render_no_notification
        componentDidMount_def isPaneNotification_def Let_def)

theorem initial_pane_notified_once_witness:
  "filter isPaneNotification
     (lifetime (exampleProps True False)
        [UserEvent ''onClick'' ''timelineTrackNameButton'' exampleEvent,
         NewProps (exampleProps False False),
         NewProps (exampleProps True False)]) = [SetIsInitialSelectedPane True] \<and>
   filter isPaneNotification
     (lifetime (exampleProps False False)
        [NewProps (exampleProps True False),
         UserEvent ''onClick'' ''timelineTrackCloseButton'' exampleEvent]) = []"
  using initial_pane_notified_once [of "exampleProps True False"
          "[UserEvent ''onClick'' ''timelineTrackNameButton'' exampleEvent,
            NewProps (exampleProps False False),
            NewProps (exampleProps True False)]"]
        initial_pane_notified_once [of "exampleProps False False"
          "[NewProps (exampleProps True False),
            UserEvent ''onClick'' ''timelineTrackCloseButton'' exampleEvent]"]
  by (simp add: exampleProps_def)

end
